theory Spec2Isabelle
  imports Main "HOL-Library.Sublist" "HOL-Library.AList" "HOL-Library.Multiset"
begin

section \<open>PriceHunter: the web client of the price-comparison service\<close>

text \<open>
  The development embeds \<^verbatim>\<open>src/droidrun/web/app.js\<close>, the class \<^verbatim>\<open>PriceHunter\<close>.
  JavaScript strings are modelled as \<^typ>\<open>string\<close>, read as the UTF-8 bytes of the text.
\<close>

subsection \<open>Strings\<close>

text \<open>
  A string is truthy in JavaScript exactly when it is not empty
  (\<^verbatim>\<open>if (data.current_app)\<close>, \<^verbatim>\<open>!product\<close>, \<^verbatim>\<open>update.error || '...'\<close>).
\<close>

definition truthy :: "string \<Rightarrow> bool" where
  "truthy s \<longleftrightarrow> s \<noteq> []"

text \<open>
  \<^verbatim>\<open>String.prototype.trim\<close> removes the ECMAScript white space and line terminators
  from both ends: U+0009 to U+000D, U+0020, U+00A0, U+1680, U+2000 to U+200A, U+2028,
  U+2029, U+202F, U+205F, U+3000 and U+FEFF, here in their UTF-8 encodings.
\<close>

definition white_space :: "string list" where
  "white_space =
     [[CHR 0x09], [CHR 0x0A], [CHR 0x0B], [CHR 0x0C], [CHR 0x0D], [CHR 0x20],
      [CHR 0xC2, CHR 0xA0], [CHR 0xE1, CHR 0x9A, CHR 0x80],
      [CHR 0xE2, CHR 0x80, CHR 0x80], [CHR 0xE2, CHR 0x80, CHR 0x81],
      [CHR 0xE2, CHR 0x80, CHR 0x82], [CHR 0xE2, CHR 0x80, CHR 0x83],
      [CHR 0xE2, CHR 0x80, CHR 0x84], [CHR 0xE2, CHR 0x80, CHR 0x85],
      [CHR 0xE2, CHR 0x80, CHR 0x86], [CHR 0xE2, CHR 0x80, CHR 0x87],
      [CHR 0xE2, CHR 0x80, CHR 0x88], [CHR 0xE2, CHR 0x80, CHR 0x89],
      [CHR 0xE2, CHR 0x80, CHR 0x8A], [CHR 0xE2, CHR 0x80, CHR 0xA8],
      [CHR 0xE2, CHR 0x80, CHR 0xA9], [CHR 0xE2, CHR 0x80, CHR 0xAF],
      [CHR 0xE2, CHR 0x81, CHR 0x9F], [CHR 0xE3, CHR 0x80, CHR 0x80],
      [CHR 0xEF, CHR 0xBB, CHR 0xBF]]"

text \<open>
  \<open>strip seqs s n\<close> removes from the front of \<open>s\<close> every leading occurrence of one of
  the sequences \<open>seqs\<close>. Each round removes at least one byte, so \<open>length s\<close> rounds
  always suffice; the bound \<open>n\<close> makes the recursion structural.
\<close>

fun strip :: "string list \<Rightarrow> string \<Rightarrow> nat \<Rightarrow> string" where
  "strip seqs s 0 = s"
| "strip seqs s (Suc n) =
     (case find (\<lambda>w. w \<noteq> [] \<and> prefix w s) seqs of
        None \<Rightarrow> s
      | Some w \<Rightarrow> strip seqs (drop (length w) s) n)"

definition trimStart :: "string \<Rightarrow> string" where
  "trimStart s = strip white_space s (length s)"

definition trimEnd :: "string \<Rightarrow> string" where
  "trimEnd s = rev (strip (map rev white_space) (rev s) (length s))"

definition trim :: "string \<Rightarrow> string" where
  "trim s = trimEnd (trimStart s)"

text \<open>
  \<^verbatim>\<open>String.prototype.toUpperCase\<close> is the case mapping of Unicode, which the browser
  supplies. The development does not fix it: it is the field \<open>toUpperCase\<close> of the state
  below, and every property is proved for every such mapping.

  \<^verbatim>\<open>capitalize(str)\<close> is \<^verbatim>\<open>str.charAt(0).toUpperCase() + str.slice(1)\<close>. \<^verbatim>\<open>charAt(0)\<close> is the
  first UTF-16 code unit of the string. When the first character takes one to three bytes
  of UTF-8, that unit is the character, and \<open>char_bytes\<close> of its first byte tells how many
  bytes it takes. When it takes four bytes, the unit is one half of a surrogate pair,
  which \<^verbatim>\<open>toUpperCase\<close> keeps, so that the concatenation gives the string back. For the
  empty string \<^verbatim>\<open>charAt(0)\<close> and the result are empty.
\<close>

definition char_bytes :: "char \<Rightarrow> nat" where
  "char_bytes c =
     (if (of_char c :: nat) < 0xC0 then 1
      else if (of_char c :: nat) < 0xE0 then 2
      else if (of_char c :: nat) < 0xF0 then 3 else 4)"

definition capitalize :: "(string \<Rightarrow> string) \<Rightarrow> string \<Rightarrow> string" where
  "capitalize upper str =
     (case str of
        [] \<Rightarrow> []
      | c # cs \<Rightarrow>
          if char_bytes c = 4 then str
          else upper (take (char_bytes c) str) @ drop (char_bytes c) str)"

text \<open>
  A value that may be \<^verbatim>\<open>null\<close> or \<^verbatim>\<open>undefined\<close> is an option. Inside a template literal
  \<^verbatim>\<open>null\<close> prints as the text null and \<^verbatim>\<open>undefined\<close> as the text undefined; assigned to
  \<^verbatim>\<open>textContent\<close>, \<^verbatim>\<open>null\<close> gives the empty text. \<^verbatim>\<open>a || b\<close> on an optional string is
  \<^verbatim>\<open>a\<close> when it is present and not empty, and \<^verbatim>\<open>b\<close> otherwise.
\<close>

definition template_null :: "string option \<Rightarrow> string" where
  "template_null v = (case v of None \<Rightarrow> ''null'' | Some s \<Rightarrow> s)"

definition template_undefined :: "string option \<Rightarrow> string" where
  "template_undefined v = (case v of None \<Rightarrow> ''undefined'' | Some s \<Rightarrow> s)"

definition textContent_null :: "string option \<Rightarrow> string" where
  "textContent_null v = (case v of None \<Rightarrow> [] | Some s \<Rightarrow> s)"

definition or_else :: "string option \<Rightarrow> string \<Rightarrow> string" where
  "or_else v d = (case v of None \<Rightarrow> d | Some s \<Rightarrow> if truthy s then s else d)"

subsection \<open>Numbers\<close>

text \<open>
  Prices arrive as JSON numbers and reach the code as JavaScript numbers. The code does
  two things with a number: it tests it for truth and it prints it (in a template
  literal, or by assigning it to \<^verbatim>\<open>textContent\<close>). A number is therefore represented by
  the text that JavaScript prints for it, the result of \<^verbatim>\<open>String(n)\<close>: \<^verbatim>\<open>45\<close>, \<^verbatim>\<open>45.5\<close>,
  \<^verbatim>\<open>-3\<close>, \<^verbatim>\<open>1e+21\<close>. That text determines the number, except that \<^verbatim>\<open>0\<close> and \<^verbatim>\<open>-0\<close> both
  print as \<^verbatim>\<open>0\<close>. A number is falsy exactly when it is zero or \<^verbatim>\<open>NaN\<close>, that is when its
  text is \<^verbatim>\<open>0\<close> or \<^verbatim>\<open>NaN\<close>.
\<close>

datatype number = Number string

fun number_text :: "number \<Rightarrow> string" where
  "number_text (Number t) = t"

definition number_truthy :: "number \<Rightarrow> bool" where
  "number_truthy n \<longleftrightarrow> number_text n \<noteq> ''0'' \<and> number_text n \<noteq> ''NaN''"

subsection \<open>Messages of the push channel\<close>

text \<open>
  The events of the per-task channel, after \<^verbatim>\<open>JSON.parse\<close>, with the fields and the
  types the interface of the service gives them: identifiers, status and error are
  strings, \<^verbatim>\<open>found\<close> is a boolean, prices are numbers. A field that a message may
  omit is an option. \<open>probe_result\<close> is the \<^verbatim>\<open>result\<close> object of an \<^verbatim>\<open>app_complete\<close>
  event; \<open>best_deal\<close> is the \<^verbatim>\<open>best\<close> object of the terminal search event, with its
  fields \<^verbatim>\<open>app\<close> and \<^verbatim>\<open>price\<close> as \<open>deal_app\<close> and \<open>deal_price\<close>; \<open>update_error\<close> is the
  \<^verbatim>\<open>error\<close> field of an order event.
\<close>

record probe_result =
  found :: bool
  price :: "number option"
  error :: "string option"

record best_deal =
  deal_app :: string
  deal_price :: number

record update =
  current_app :: "string option"
  app_complete :: "string option"
  result :: "probe_result option"
  status :: "string option"
  best :: "best_deal option"
  update_error :: "string option"

subsection \<open>The page\<close>

text \<open>
  A price card is an element of class \<^verbatim>\<open>price-card\<close> with its \<^verbatim>\<open>data-app\<close> attribute and
  the children the code selects in it: \<^verbatim>\<open>.price-loading\<close>, \<^verbatim>\<open>.price-content\<close>,
  \<^verbatim>\<open>.price-value\<close>, \<^verbatim>\<open>.product-name\<close>, \<^verbatim>\<open>.status-badge\<close> and \<^verbatim>\<open>.btn-buy\<close>. A field
  \<open>x_hidden\<close> tells whether the class list of \<open>x\<close> holds \<^verbatim>\<open>hidden\<close>, \<open>best_price_class\<close>
  whether the card's class list holds \<^verbatim>\<open>best-price\<close>; the other fields are the text
  contents, the badge's \<^verbatim>\<open>className\<close> and the \<^verbatim>\<open>data-app\<close> attribute of the buy button.
  Every card has all of these children, and no two cards share one.
\<close>

record card =
  data_app :: "string option"
  best_price_class :: bool
  loading_hidden :: bool
  content_hidden :: bool
  priceValue :: string
  productName :: string
  badge_text :: string
  badge_className :: string
  buyBtn_hidden :: bool
  buyBtn_data_app :: "string option"

text \<open>
  What the browser keeps for the client: the requests sent with \<^verbatim>\<open>fetch\<close> (with the
  async function that awaits each and whether its promise has settled), the web sockets
  created (with the handler installed as \<^verbatim>\<open>onmessage\<close>), and the pending timeouts.
  \<open>http_method\<close> is the \<^verbatim>\<open>method\<close> option of the request.
\<close>

datatype jval = JNull | JString string

datatype caller = StartSearch | PlaceOrder

record request =
  path :: string
  http_method :: string
  headers :: "(string \<times> string) list"
  body :: "(string \<times> jval) list"
  awaited_by :: caller
  settled :: bool

datatype channel = SearchChannel | OrderChannel

record socket =
  url :: string
  onmessage :: channel
  is_open :: bool

datatype timeout = HideOrderStatusModal nat

text \<open>The values kept in \<^verbatim>\<open>this.results\<close>: probe results under the storefront
  identifiers and the winning offer under the key \<^verbatim>\<open>best\<close>.\<close>

datatype entry = Probe probe_result | Best best_deal

text \<open>
  The state: the fields of the \<^verbatim>\<open>PriceHunter\<close> object, the elements of the document it
  holds, and the browser's side. \<^verbatim>\<open>this.results\<close> is an association list in insertion
  order, as the properties of a JavaScript object are.

  Three fields stand for what the sources leave to the browser. \<open>toUpperCase\<close> is
  \<^verbatim>\<open>String.prototype.toUpperCase\<close>. \<open>blocks_ws\<close> tells whether the browser refuses, by
  throwing, to create an insecure \<^verbatim>\<open>ws:\<close> socket from this page (as some do on a page
  served over https). \<open>beyond_model\<close> is set when a handler has asked the browser for a
  selector that this development does not interpret (see \<open>querySelector_card\<close>); from
  then on the state no longer describes the page, and no property is claimed of it. No
  method reads or resets it.
\<close>

record state =
  currentTaskId :: "string option"
  currentProduct :: "string option"
  ws :: "nat option"
  results :: "(string \<times> entry) list"
  selectedOrderApp :: "string option"
  productInput_value :: string
  productInput_focused :: bool
  searchBtn_disabled :: bool
  btnText_hidden :: bool
  btnLoader_hidden :: bool
  statusSection_hidden :: bool
  statusTitle :: string
  statusMessage :: string
  resultsSection_hidden :: bool
  bestDeal_hidden :: bool
  bestApp :: string
  bestPrice :: string
  bestAppBtn :: string
  orderModal_hidden :: bool
  orderApp :: string
  orderProduct :: string
  orderStatusModal_hidden :: bool
  orderStatusTitle :: string
  orderStatusMsg :: string
  priceCards :: "card list"
  location_host :: string
  requests :: "request list"
  sockets :: "socket list"
  timeouts :: "timeout list"
  toUpperCase :: "string \<Rightarrow> string"
  blocks_ws :: bool
  beyond_model :: bool

text \<open>
  \<^verbatim>\<open>document.querySelector(`.price-card[data-app="${app}"]`)\<close>. The identifier is spliced
  into a quoted string of the selector, unescaped, so what the browser is asked depends
  on the characters of the identifier.

  \<^item> \<open>plain\<close>: the identifier has no double quote, no backslash, no line break (line feed,
    carriage return, form feed) and no NUL. Then the selector is well formed, the quoted
    string denotes the identifier itself, and the call returns the first card in
    document order whose \<^verbatim>\<open>data-app\<close> attribute equals it (\<open>Element i\<close>, the index of
    the card), or \<^verbatim>\<open>null\<close> (\<open>Null\<close>).
  \<^item> \<open>line_broken\<close>: the identifier has a line break and neither a double quote nor a
    backslash. Then the quoted string is cut by the line break, the selector is not
    valid, and the call throws a SyntaxError (\<open>Threw\<close>).
  \<^item> \<open>spliced\<close>: the identifier is \<^verbatim>\<open>x"], .price-card[data-app="y\<close> with \<open>x\<close> and \<open>y\<close> plain.
    Then the selector reads \<^verbatim>\<open>.price-card[data-app="x"], .price-card[data-app="y"]\<close>, a
    list of two selectors, and the call returns the first card in document order whose
    \<^verbatim>\<open>data-app\<close> attribute is \<open>x\<close> or \<open>y\<close>, or \<^verbatim>\<open>null\<close>.
  \<^item> Any other identifier (with a double quote, a backslash or a NUL) ends the quoted
    string early, escapes a character or is rewritten, and the text after it becomes part
    of the selector; what the call does then depends on the grammar of selectors and on
    the whole document. That case is not interpreted: the result is \<open>None\<close>.
\<close>

definition plain :: "string \<Rightarrow> bool" where
  "plain a \<longleftrightarrow>
     (\<forall>c \<in> set a. c \<notin> {CHR 0x00, CHR 0x0A, CHR 0x0C, CHR 0x0D, CHR 0x22, CHR 0x5C})"

definition line_broken :: "string \<Rightarrow> bool" where
  "line_broken a \<longleftrightarrow>
     (\<exists>c \<in> set a. c \<in> {CHR 0x0A, CHR 0x0C, CHR 0x0D}) \<and>
     (\<forall>c \<in> set a. c \<notin> {CHR 0x22, CHR 0x5C})"

definition splice_mark :: string where
  "splice_mark = [CHR 0x22] @ ''], .price-card[data-app='' @ [CHR 0x22]"

definition spliced :: "string \<Rightarrow> (string \<times> string) option" where
  "spliced a =
     (let x = takeWhile (\<lambda>c. c \<noteq> CHR 0x22) a;
          rest = drop (length x) a;
          y = drop (length splice_mark) rest
      in if prefix splice_mark rest \<and> plain x \<and> plain y then Some (x, y) else None)"

datatype selected = Threw | Null | Element nat

text \<open>The index of the first card that satisfies \<open>P\<close>, and the value \<^verbatim>\<open>querySelector\<close>
  returns for it.\<close>

fun first_card :: "(card \<Rightarrow> bool) \<Rightarrow> card list \<Rightarrow> nat option" where
  "first_card P [] = None"
| "first_card P (c # cs) = (if P c then Some 0 else map_option Suc (first_card P cs))"

definition element_or_null :: "nat option \<Rightarrow> selected" where
  "element_or_null k = (case k of None \<Rightarrow> Null | Some i \<Rightarrow> Element i)"

definition querySelector_card :: "card list \<Rightarrow> string \<Rightarrow> selected option" where
  "querySelector_card cs a =
     (if plain a
      then Some (element_or_null (first_card (\<lambda>c. data_app c = Some a) cs))
      else if line_broken a then Some Threw
      else (case spliced a of
              Some (x, y) \<Rightarrow>
                Some (element_or_null
                        (first_card (\<lambda>c. data_app c = Some x \<or> data_app c = Some y) cs))
            | None \<Rightarrow> None))"


text \<open>
  How a method that looks a card up ends: it returns, leaving a state; it throws, leaving
  the state it had reached; or it has asked for a selector that is not interpreted.
  \<open>and_then\<close> runs the next statement after one that returned. \<open>leaves r s\<close> is the state
  of the page after a handler that began in \<open>s\<close> and ended as \<open>r\<close>: an exception that
  leaves a handler is reported by the browser and changes nothing more.
\<close>

datatype outcome = Returned state | Thrown state | Unmodelled

definition and_then :: "outcome \<Rightarrow> (state \<Rightarrow> outcome) \<Rightarrow> outcome" where
  "and_then r f = (case r of Returned s \<Rightarrow> f s | Thrown s \<Rightarrow> Thrown s | Unmodelled \<Rightarrow> Unmodelled)"

definition leaves :: "outcome \<Rightarrow> state \<Rightarrow> state" where
  "leaves r s =
     (case r of Returned s' \<Rightarrow> s' | Thrown s' \<Rightarrow> s' | Unmodelled \<Rightarrow> s\<lparr>beyond_model := True\<rparr>)"

fun returns :: "outcome \<Rightarrow> bool" where
  "returns (Returned s) = True"
| "returns r = False"

subsection \<open>The methods of \<^verbatim>\<open>PriceHunter\<close>\<close>

text \<open>
  Each method takes the state and returns the state it leaves, or the way it ends when it
  looks a card up. \<^verbatim>\<open>console.log\<close> and \<^verbatim>\<open>console.error\<close> change nothing and are left out.
  The literals that are not ASCII are the bytes of the source file.
\<close>

text \<open>The constructor sets the fields of the object; \<^verbatim>\<open>initElements\<close> looks the elements
  up, which are part of the state here, and \<^verbatim>\<open>bindEvents\<close> installs the handlers, which
  are the cases of \<open>step\<close> below. \<^verbatim>\<open>selectedOrderApp\<close> is not assigned, so it starts
  undefined.\<close>

definition constructor :: "state \<Rightarrow> state" where
  "constructor s =
     s\<lparr>currentTaskId := None, currentProduct := None, ws := None, results := [],
       selectedOrderApp := None\<rparr>"

definition setSearchLoading :: "bool \<Rightarrow> state \<Rightarrow> state" where
  "setSearchLoading loading s =
     (if loading
      then s\<lparr>btnText_hidden := True, btnLoader_hidden := False, searchBtn_disabled := True\<rparr>
      else s\<lparr>btnText_hidden := False, btnLoader_hidden := True, searchBtn_disabled := False\<rparr>)"

definition showStatus :: "string \<Rightarrow> string \<Rightarrow> state \<Rightarrow> state" where
  "showStatus title message s =
     s\<lparr>statusSection_hidden := False, statusTitle := title, statusMessage := message\<rparr>"

definition resetCard :: "card \<Rightarrow> card" where
  "resetCard c =
     c\<lparr>best_price_class := False, loading_hidden := False, content_hidden := True,
       productName := ''Waiting...'', badge_text := ''Pending'',
       badge_className := ''status-badge pending'', buyBtn_hidden := True\<rparr>"

definition resetCards :: "state \<Rightarrow> state" where
  "resetCards s = s\<lparr>priceCards := map resetCard (priceCards s)\<rparr>"

definition setCardSearching :: "string \<Rightarrow> state \<Rightarrow> outcome" where
  "setCardSearching a s =
     (case querySelector_card (priceCards s) a of
        None \<Rightarrow> Unmodelled
      | Some Threw \<Rightarrow> Thrown s
      | Some Null \<Rightarrow> Returned s
      | Some (Element i) \<Rightarrow>
          Returned
            (s\<lparr>priceCards := (priceCards s)
               [i := (priceCards s ! i)
                  \<lparr>badge_text := ''Searching'', badge_className := ''status-badge searching'',
                   productName := ''Searching...''\<rparr>]\<rparr>))"

text \<open>
  \<^verbatim>\<open>updateCard\<close>: the branch \<^verbatim>\<open>result.found && result.price\<close> needs a price that is
  present and truthy.
\<close>

definition card_found :: "number \<Rightarrow> string option \<Rightarrow> card \<Rightarrow> card" where
  "card_found p product c =
     c\<lparr>content_hidden := False, priceValue := number_text p,
       productName := textContent_null product, badge_text := ''Found'',
       badge_className := ''status-badge found'', buyBtn_hidden := False\<rparr>"

definition card_not_found :: "probe_result \<Rightarrow> card \<Rightarrow> card" where
  "card_not_found r c =
     c\<lparr>content_hidden := False, priceValue := ''--'',
       productName := or_else (error r) ''Not found'', badge_text := ''Error'',
       badge_className := ''status-badge error''\<rparr>"

definition updateCard :: "string \<Rightarrow> probe_result \<Rightarrow> state \<Rightarrow> outcome" where
  "updateCard a r s =
     (case querySelector_card (priceCards s) a of
        None \<Rightarrow> Unmodelled
      | Some Threw \<Rightarrow> Thrown s
      | Some Null \<Rightarrow> Returned s
      | Some (Element i) \<Rightarrow>
          (let c = (priceCards s ! i)\<lparr>loading_hidden := True\<rparr>;
               c' = (case price r of
                       Some p \<Rightarrow>
                         if found r \<and> number_truthy p then card_found p (currentProduct s) c
                         else card_not_found r c
                     | None \<Rightarrow> card_not_found r c)
           in Returned
                (s\<lparr>priceCards := (priceCards s)[i := c'],
                   results := AList.update a (Probe r) (results s)\<rparr>)))"

definition rupee :: string where
  "rupee = [CHR 0xC3, CHR 0xA2, CHR 0xE2, CHR 0x80, CHR 0x9A, CHR 0xC2, CHR 0xB9]"

definition handleSearchComplete :: "update \<Rightarrow> state \<Rightarrow> outcome" where
  "handleSearchComplete d s =
     (let s1 = (setSearchLoading False s)\<lparr>statusSection_hidden := True\<rparr>
      in case best d of
           None \<Rightarrow> Returned s1
         | Some b \<Rightarrow>
             (let s2 = s1\<lparr>results := AList.update ''best'' (Best b) (results s1),
                          bestApp := capitalize (toUpperCase s1) (deal_app b),
                          bestPrice := rupee @ number_text (deal_price b),
                          bestAppBtn := capitalize (toUpperCase s1) (deal_app b),
                          bestDeal_hidden := False\<rparr>
              in case querySelector_card (priceCards s2) (deal_app b) of
                   None \<Rightarrow> Unmodelled
                 | Some Threw \<Rightarrow> Thrown s2
                 | Some Null \<Rightarrow> Returned s2
                 | Some (Element i) \<Rightarrow>
                     Returned
                       (s2\<lparr>priceCards := (priceCards s2)
                           [i := (priceCards s2 ! i)\<lparr>best_price_class := True\<rparr>]\<rparr>)))"

text \<open>
  \<^verbatim>\<open>handleUpdate\<close> runs its three blocks in order: \<^verbatim>\<open>current_app\<close>, then
  \<^verbatim>\<open>app_complete\<close> with \<^verbatim>\<open>result\<close>, then \<^verbatim>\<open>status === 'completed'\<close>; a block that throws
  ends the method. The guards are JavaScript truth tests: an empty identifier is skipped
  like a missing one, and an object (\<^verbatim>\<open>result\<close>, \<^verbatim>\<open>best\<close>) is truthy whenever it is there.
  In the first block the banner is set before the card is looked up.
\<close>

definition handle_current_app :: "update \<Rightarrow> state \<Rightarrow> outcome" where
  "handle_current_app d s =
     (case current_app d of
        None \<Rightarrow> Returned s
      | Some a \<Rightarrow>
          if truthy a
          then setCardSearching a
                 (showStatus (''Searching on '' @ capitalize (toUpperCase s) a @ ''...'')
                    (''Your phone is searching '' @ toUpperCase s a @ '' for '' @ [CHR 0x22]
                       @ template_null (currentProduct s) @ [CHR 0x22]) s)
          else Returned s)"

definition handle_app_complete :: "update \<Rightarrow> state \<Rightarrow> outcome" where
  "handle_app_complete d s =
     (case app_complete d of
        None \<Rightarrow> Returned s
      | Some a \<Rightarrow>
          (case result d of
             None \<Rightarrow> Returned s
           | Some r \<Rightarrow> if truthy a then updateCard a r s else Returned s))"

definition handle_status :: "update \<Rightarrow> state \<Rightarrow> outcome" where
  "handle_status d s =
     (if status d = Some ''completed'' then handleSearchComplete d s else Returned s)"

definition handleUpdate :: "update \<Rightarrow> state \<Rightarrow> outcome" where
  "handleUpdate d s =
     and_then (and_then (handle_current_app d s) (handle_app_complete d)) (handle_status d)"

text \<open>
  \<^verbatim>\<open>fetch(path, {method: 'POST', headers: {'Content-Type': 'application/json'},
  body: JSON.stringify(obj)})\<close> records the request; its promise settles later.
\<close>

definition fetch :: "string \<Rightarrow> (string \<times> jval) list \<Rightarrow> caller \<Rightarrow> state \<Rightarrow> state" where
  "fetch p obj f s =
     s\<lparr>requests := requests s @
          [\<lparr>path = p, http_method = ''POST'',
            headers = [(''Content-Type'', ''application/json'')],
            body = obj, awaited_by = f, settled = False\<rparr>]\<rparr>"

text \<open>
  An async method is split where it awaits. What it awaits ends in one of two ways:
  \<open>Json t\<close>, when \<^verbatim>\<open>fetch\<close> and \<^verbatim>\<open>response.json()\<close> both resolve with an object, \<open>t\<close> being
  its \<^verbatim>\<open>task_id\<close> (\<open>None\<close> when it has none); \<open>Rejected\<close>, when one of them rejects or
  the body is no object, and the \<^verbatim>\<open>catch\<close> block runs.
\<close>

datatype response = Json "string option" | Rejected

definition startSearch :: "state \<Rightarrow> state" where
  "startSearch s =
     (let product = trim (productInput_value s)
      in if \<not> truthy product then s\<lparr>productInput_focused := True\<rparr>
         else
           (let s1 = s\<lparr>currentProduct := Some product, results := []\<rparr>;
                s2 = setSearchLoading True s1;
                s3 = showStatus ''Connecting to your phone...'' ''Starting search...'' s2;
                s4 = s3\<lparr>resultsSection_hidden := False\<rparr>;
                s5 = resetCards s4;
                s6 = s5\<lparr>bestDeal_hidden := True\<rparr>
            in fetch ''/search'' [(''product'', JString product)] StartSearch s6))"

text \<open>
  The address of a task's channel, \<^verbatim>\<open>`ws://${window.location.host}/ws/${taskId}`\<close>, and
  \<^verbatim>\<open>new WebSocket(url)\<close>. The constructor throws a SyntaxError when the address has a
  fragment, which here is when the task identifier has a \<^verbatim>\<open>#\<close> (the host has none), and
  it throws when the browser refuses the insecure scheme on this page. Otherwise it
  returns a new socket; \<open>new_WebSocket h u\<close> also installs \<open>h\<close> as its \<^verbatim>\<open>onmessage\<close>
  handler, which both callers do next. \<open>None\<close> stands for the exception.
\<close>

definition ws_url :: "state \<Rightarrow> string option \<Rightarrow> string" where
  "ws_url s taskId = ''ws://'' @ location_host s @ ''/ws/'' @ template_undefined taskId"

definition WebSocket_throws :: "state \<Rightarrow> string \<Rightarrow> bool" where
  "WebSocket_throws s u \<longleftrightarrow> CHR ''#'' \<in> set u \<or> blocks_ws s"

definition new_WebSocket :: "channel \<Rightarrow> string \<Rightarrow> state \<Rightarrow> state option" where
  "new_WebSocket h u s =
     (if WebSocket_throws s u then None
      else Some (s\<lparr>sockets := sockets s @ [\<lparr>url = u, onmessage = h, is_open = True\<rparr>]\<rparr>))"

text \<open>\<^verbatim>\<open>connectWebSocket\<close> assigns \<^verbatim>\<open>this.ws\<close> once the constructor has returned.\<close>

definition connectWebSocket :: "string option \<Rightarrow> state \<Rightarrow> state option" where
  "connectWebSocket taskId s =
     (case new_WebSocket SearchChannel (ws_url s taskId) s of
        None \<Rightarrow> None
      | Some s' \<Rightarrow> Some (s'\<lparr>ws := Some (length (sockets s))\<rparr>))"

text \<open>
  The rest of \<^verbatim>\<open>startSearch\<close>, run when what it awaits has settled. Its \<^verbatim>\<open>catch\<close> block
  runs when the promise is rejected and when \<^verbatim>\<open>connectWebSocket\<close> throws; in the second
  case \<^verbatim>\<open>currentTaskId\<close> has been assigned already.
\<close>

definition startSearch_catch :: "state \<Rightarrow> state" where
  "startSearch_catch s =
     setSearchLoading False
       (showStatus ''Connection failed'' ''Could not connect to server. Is it running?'' s)"

definition startSearch_resume :: "response \<Rightarrow> state \<Rightarrow> state" where
  "startSearch_resume r s =
     (case r of
        Json t \<Rightarrow>
          (case connectWebSocket t (s\<lparr>currentTaskId := t\<rparr>) of
             Some s' \<Rightarrow> s'
           | None \<Rightarrow> startSearch_catch (s\<lparr>currentTaskId := t\<rparr>))
      | Rejected \<Rightarrow> startSearch_catch s)"

text \<open>
  \<^verbatim>\<open>showOrderModal(app)\<close>: \<open>app\<close> is \<open>None\<close> when the caller passes \<^verbatim>\<open>undefined\<close>;
  then \<^verbatim>\<open>capitalize\<close> throws a TypeError after \<^verbatim>\<open>selectedOrderApp\<close> has been assigned,
  and the method stops there.
\<close>

definition showOrderModal :: "string option \<Rightarrow> state \<Rightarrow> state" where
  "showOrderModal a s =
     (let s1 = s\<lparr>selectedOrderApp := a\<rparr>
      in case a of
           None \<Rightarrow> s1
         | Some n \<Rightarrow>
             s1\<lparr>orderApp := capitalize (toUpperCase s) n,
                orderProduct := textContent_null (currentProduct s),
                orderModal_hidden := False\<rparr>)"

definition hideOrderModal :: "state \<Rightarrow> state" where
  "hideOrderModal s = s\<lparr>orderModal_hidden := True\<rparr>"

definition box_icon :: string where
  "box_icon = [CHR 0xC3, CHR 0xB0, CHR 0xC5, CHR 0xB8, CHR 0xE2, CHR 0x80, CHR 0x9C,
               CHR 0xC2, CHR 0xA6]"

definition check_icon :: string where
  "check_icon = [CHR 0xC3, CHR 0xA2, CHR 0xC5, CHR 0x93, CHR 0xE2, CHR 0x80, CHR 0xA6]"

definition cross_icon :: string where
  "cross_icon = [CHR 0xC3, CHR 0xA2, CHR 0xC5, CHR 0x92]"

text \<open>
  \<^verbatim>\<open>placeOrder\<close> up to its \<^verbatim>\<open>fetch\<close>. With no storefront selected,
  \<^verbatim>\<open>capitalize(undefined)\<close> throws before the \<^verbatim>\<open>try\<close> block and nothing is sent.
\<close>

definition placeOrder :: "state \<Rightarrow> state" where
  "placeOrder s =
     (let s1 = hideOrderModal s;
          s2 = s1\<lparr>orderStatusModal_hidden := False,
                  orderStatusTitle := box_icon @ '' Placing Order...''\<rparr>
      in case selectedOrderApp s2 of
           None \<Rightarrow> s2
         | Some a \<Rightarrow>
             fetch ''/order''
               [(''product'', case currentProduct s2 of None \<Rightarrow> JNull | Some p \<Rightarrow> JString p),
                (''app'', JString a)]
               PlaceOrder
               (s2\<lparr>orderStatusMsg :=
                    ''Automating order on '' @ capitalize (toUpperCase s) a @ ''...''\<rparr>))"

definition setTimeout_hide :: "nat \<Rightarrow> state \<Rightarrow> state" where
  "setTimeout_hide ms s = s\<lparr>timeouts := timeouts s @ [HideOrderStatusModal ms]\<rparr>"

definition close_socket :: "nat \<Rightarrow> state \<Rightarrow> state" where
  "close_socket i s = s\<lparr>sockets := (sockets s)[i := (sockets s ! i)\<lparr>is_open := False\<rparr>]\<rparr>"

text \<open>
  The rest of \<^verbatim>\<open>placeOrder\<close>, run when what it awaits has settled. Its \<^verbatim>\<open>catch\<close> block
  runs when the promise is rejected and when \<^verbatim>\<open>new WebSocket\<close> throws.
\<close>

definition placeOrder_catch :: "state \<Rightarrow> state" where
  "placeOrder_catch s =
     setTimeout_hide 3000
       (s\<lparr>orderStatusTitle := cross_icon @ '' Error'',
          orderStatusMsg := ''Failed to communicate with server''\<rparr>)"

definition placeOrder_resume :: "response \<Rightarrow> state \<Rightarrow> state" where
  "placeOrder_resume r s =
     (case r of
        Json t \<Rightarrow>
          (case new_WebSocket OrderChannel (ws_url s t) s of
             Some s' \<Rightarrow> s'
           | None \<Rightarrow> placeOrder_catch s)
      | Rejected \<Rightarrow> placeOrder_catch s)"

text \<open>The \<^verbatim>\<open>onmessage\<close> handler of the order socket \<open>i\<close>.\<close>

definition orderWs_onmessage :: "nat \<Rightarrow> update \<Rightarrow> state \<Rightarrow> state" where
  "orderWs_onmessage i u s =
     (if status u = Some ''completed''
      then close_socket i
             (setTimeout_hide 3000
                (s\<lparr>orderStatusTitle := check_icon @ '' Order Placed!'',
                   orderStatusMsg := ''Your order has been placed successfully!''\<rparr>))
      else if status u = Some ''error''
      then close_socket i
             (setTimeout_hide 3000
                (s\<lparr>orderStatusTitle := cross_icon @ '' Order Failed'',
                   orderStatusMsg := or_else (update_error u) ''Failed to place order''\<rparr>))
      else s)"

subsection \<open>Events\<close>

text \<open>
  What can happen to the page, with the handler \<^verbatim>\<open>bindEvents\<close>, \<^verbatim>\<open>connectWebSocket\<close>
  and \<^verbatim>\<open>placeOrder\<close> install for it. A disabled button gets no click; a message reaches
  a socket only while it is open; a promise settles once; the state after a handler of the
  search channel is the one \<open>leaves\<close> gives. \<open>Click_buy k\<close> is a click on
  the buy button of card \<open>k\<close>, \<open>Input v\<close> the user's typing \<open>v\<close> into the product field,
  \<open>Closed i\<close> the end of connection \<open>i\<close>, \<open>Fired k\<close> the expiry of pending timeout \<open>k\<close>.
\<close>

datatype event =
    Input string
  | Click_searchBtn
  | Keypress string
  | Click_buy nat
  | Click_buyBestBtn
  | Click_cancelOrder
  | Click_modal_close
  | Click_confirmOrder
  | Settled nat response
  | Message nat update
  | Closed nat
  | Fired nat

fun step :: "event \<Rightarrow> state \<Rightarrow> state" where
  "step (Input v) s = s\<lparr>productInput_value := v\<rparr>"
| "step Click_searchBtn s = (if searchBtn_disabled s then s else startSearch s)"
| "step (Keypress k) s = (if k = ''Enter'' then startSearch s else s)"
| "step (Click_buy k) s =
     (if k < length (priceCards s) then showOrderModal (buyBtn_data_app (priceCards s ! k)) s
      else s)"
| "step Click_buyBestBtn s =
     (case map_of (results s) ''best'' of
        None \<Rightarrow> s
      | Some (Best b) \<Rightarrow> showOrderModal (Some (deal_app b)) s
      | Some (Probe r) \<Rightarrow> showOrderModal None s)"
| "step Click_cancelOrder s = hideOrderModal s"
| "step Click_modal_close s = hideOrderModal s"
| "step Click_confirmOrder s = placeOrder s"
| "step (Settled i r) s =
     (if i < length (requests s) \<and> \<not> settled (requests s ! i)
      then (let s1 = s\<lparr>requests := (requests s)[i := (requests s ! i)\<lparr>settled := True\<rparr>]\<rparr>
            in case awaited_by (requests s ! i) of
                 StartSearch \<Rightarrow> startSearch_resume r s1
               | PlaceOrder \<Rightarrow> placeOrder_resume r s1)
      else s)"
| "step (Message i u) s =
     (if i < length (sockets s) \<and> is_open (sockets s ! i)
      then (case onmessage (sockets s ! i) of
              SearchChannel \<Rightarrow> leaves (handleUpdate u s) s
            | OrderChannel \<Rightarrow> orderWs_onmessage i u s)
      else s)"
| "step (Closed i) s = (if i < length (sockets s) then close_socket i s else s)"
| "step (Fired k) s =
     (if k < length (timeouts s)
      then s\<lparr>timeouts := take k (timeouts s) @ drop (Suc k) (timeouts s),
             orderStatusModal_hidden := True\<rparr>
      else s)"

fun run :: "event list \<Rightarrow> state \<Rightarrow> state" where
  "run [] s = s"
| "run (e # es) s = run es (step e s)"

subsection \<open>An example page\<close>

text \<open>
  The document of the service is not part of the sources. The page below has one card
  for each of the four storefronts and is what the methods are run on in the examples.
\<close>

text \<open>
  The case mapping of the example page upper-cases the letters a to z and keeps every
  other byte. On ASCII text, which is all the examples apply it to, that is what
  \<^verbatim>\<open>toUpperCase\<close> gives.
\<close>

definition upper_ascii_char :: "char \<Rightarrow> char" where
  "upper_ascii_char c =
     (if 97 \<le> (of_char c :: nat) \<and> (of_char c :: nat) \<le> 122
      then char_of ((of_char c :: nat) - 32) else c)"

definition upper_ascii :: "string \<Rightarrow> string" where
  "upper_ascii str = map upper_ascii_char str"

definition shop_card :: "string \<Rightarrow> card" where
  "shop_card a =
     \<lparr>data_app = Some a, best_price_class = False, loading_hidden = False,
      content_hidden = True, priceValue = ''--'', productName = ''Waiting...'',
      badge_text = ''Pending'', badge_className = ''status-badge pending'',
      buyBtn_hidden = True, buyBtn_data_app = Some a\<rparr>"

definition page :: state where
  "page =
     \<lparr>currentTaskId = None, currentProduct = None, ws = None, results = [],
      selectedOrderApp = None, productInput_value = [], productInput_focused = False,
      searchBtn_disabled = False, btnText_hidden = False, btnLoader_hidden = True,
      statusSection_hidden = True, statusTitle = [], statusMessage = [],
      resultsSection_hidden = True, bestDeal_hidden = True, bestApp = [], bestPrice = [],
      bestAppBtn = [], orderModal_hidden = True, orderApp = [], orderProduct = [],
      orderStatusModal_hidden = True, orderStatusTitle = [], orderStatusMsg = [],
      priceCards = [shop_card ''amazon'', shop_card ''flipkart'', shop_card ''blinkit'',
                    shop_card ''zepto''],
      location_host = ''localhost:8000'', requests = [], sockets = [], timeouts = [],
      toUpperCase = upper_ascii, blocks_ws = False, beyond_model = False\<rparr>"

text \<open>The page once a search for \<open>milk\<close> has been started and its channel is open.
  (\<open>page\<close> is the document with the object just constructed.)\<close>

definition searching :: state where
  "searching =
     run [Input ''milk'', Click_searchBtn, Settled 0 (Json (Some ''t1''))] page"

definition no_update :: update where
  "no_update =
     \<lparr>current_app = None, app_complete = None, result = None, status = None, best = None,
      update_error = None\<rparr>"

subsection \<open>Searches over time\<close>

text \<open>
  Three kinds of event matter to the search button. \<open>begins_search\<close>: the event calls
  \<^verbatim>\<open>startSearch\<close> and the trimmed input is not empty, so a search begins.
  \<open>handleSearchComplete_runs\<close>: a message with status \<^verbatim>\<open>completed\<close> reaches an open
  search channel and the two blocks of \<^verbatim>\<open>handleUpdate\<close> before the status test return, so
  \<^verbatim>\<open>handleSearchComplete\<close> is called. \<open>startSearch_catch_runs\<close>: what \<^verbatim>\<open>startSearch\<close>
  awaits is rejected, or it resolves and the socket cannot be created, so the \<^verbatim>\<open>catch\<close>
  block of \<^verbatim>\<open>startSearch\<close> runs.
\<close>

fun begins_search :: "event \<Rightarrow> state \<Rightarrow> bool" where
  "begins_search Click_searchBtn s =
     (\<not> searchBtn_disabled s \<and> truthy (trim (productInput_value s)))"
| "begins_search (Keypress k) s = (k = ''Enter'' \<and> truthy (trim (productInput_value s)))"
| "begins_search e s = False"

fun handleSearchComplete_runs :: "event \<Rightarrow> state \<Rightarrow> bool" where
  "handleSearchComplete_runs (Message i u) s =
     (i < length (sockets s) \<and> is_open (sockets s ! i) \<and>
      onmessage (sockets s ! i) = SearchChannel \<and> status u = Some ''completed'' \<and>
      returns (and_then (handle_current_app u s) (handle_app_complete u)))"
| "handleSearchComplete_runs e s = False"

fun startSearch_catch_runs :: "event \<Rightarrow> state \<Rightarrow> bool" where
  "startSearch_catch_runs (Settled i r) s =
     (i < length (requests s) \<and> \<not> settled (requests s ! i) \<and>
      awaited_by (requests s ! i) = StartSearch \<and>
      (case r of Rejected \<Rightarrow> True | Json t \<Rightarrow> WebSocket_throws s (ws_url s t)))"
| "startSearch_catch_runs e s = False"

text \<open>\<open>undisturbed es s\<close>: run from \<open>s\<close>, no event of \<open>es\<close> has \<^verbatim>\<open>handleSearchComplete\<close>
  or the \<^verbatim>\<open>catch\<close> block of \<^verbatim>\<open>startSearch\<close> run.\<close>

fun undisturbed :: "event list \<Rightarrow> state \<Rightarrow> bool" where
  "undisturbed [] s = True"
| "undisturbed (e # es) s =
     (\<not> handleSearchComplete_runs e s \<and> \<not> startSearch_catch_runs e s \<and>
      undisturbed es (step e s))"

text \<open>The searches started whose \<^verbatim>\<open>POST /search\<close> has not been answered yet.\<close>

definition searches_awaiting_response :: "state \<Rightarrow> nat" where
  "searches_awaiting_response s =
     length (filter (\<lambda>r. awaited_by r = StartSearch \<and> \<not> settled r) (requests s))"

subsection \<open>Offer selection\<close>

text \<open>
  Modelled from the spec: the offer selection of the Search Orchestrator, which is not
  among the sources (only the client that receives its terminal event is). A probe
  reports \<^verbatim>\<open>{found: true, price, label}\<close> or \<^verbatim>\<open>{found: false, error}\<close>; a ProbeResult is
  that outcome with its storefront identifier. The task holds the results in the order
  the probes settled. Once all have settled, the orchestrator goes through the configured
  storefronts in their precedence order and keeps the cheapest found price, the earlier
  storefront winning a tie; the offer is absent when no probe found the product.
\<close>

datatype probe_outcome = Found int string | Not_found string

text \<open>Modelled from the spec: the offer, a storefront identifier with its price (the
  field \<open>best_price\<close>).\<close>

record best_offer =
  app :: string
  best_price :: int

record ProbeResult =
  storefront :: string
  outcome :: probe_outcome

text \<open>
  Modelled from the spec: the offer a storefront contributes, which is its found price
  in the task's results (a failed or missing probe contributes none).
\<close>

definition offer_of :: "ProbeResult list \<Rightarrow> string \<Rightarrow> best_offer option" where
  "offer_of rs c =
     (case find (\<lambda>r. storefront r = c) rs of
        None \<Rightarrow> None
      | Some r \<Rightarrow>
          (case outcome r of
             Found p l \<Rightarrow> Some \<lparr>app = c, best_price = p\<rparr>
           | Not_found e \<Rightarrow> None))"

text \<open>
  Modelled from the spec: the selection itself, over the configured storefronts in
  precedence order and the task's results: the minimum price, a tie going to the
  storefront that comes first.
\<close>

fun select_offer :: "string list \<Rightarrow> ProbeResult list \<Rightarrow> best_offer option" where
  "select_offer [] rs = None"
| "select_offer (c # cfg) rs =
     (case offer_of rs c of
        None \<Rightarrow> select_offer cfg rs
      | Some o1 \<Rightarrow>
          (case select_offer cfg rs of
             None \<Rightarrow> Some o1
           | Some o2 \<Rightarrow> if best_price o1 \<le> best_price o2 then Some o1 else Some o2))"

text \<open>Modelled from the spec: the precedence index of a storefront, its first position
  in the configuration; and the prices the probes found.\<close>

fun precedence :: "string list \<Rightarrow> string \<Rightarrow> nat" where
  "precedence [] c = 0"
| "precedence (x # xs) c = (if x = c then 0 else Suc (precedence xs c))"

definition found_prices :: "ProbeResult list \<Rightarrow> int set" where
  "found_prices rs = {p. \<exists>r \<in> set rs. \<exists>l. outcome r = Found p l}"

text \<open>The example of the spec: storefronts A, B, C, D, settled in the order D, C, A, B.\<close>

definition example_results :: "ProbeResult list" where
  "example_results =
     [\<lparr>storefront = ''D'', outcome = Found 81000 ''iPhone 15''\<rparr>,
      \<lparr>storefront = ''C'', outcome = Found 79999 ''iPhone 15''\<rparr>,
      \<lparr>storefront = ''A'', outcome = Not_found ''no match''\<rparr>,
      \<lparr>storefront = ''B'', outcome = Found 79999 ''iPhone 15''\<rparr>]"

subsection \<open>Example messages\<close>


definition found_45 :: probe_result where
  "found_45 = \<lparr>found = True, price = Some (Number ''45''), error = None\<rparr>"






text \<open>
  An identifier that no card carries and that ends the quoted string of the selector and
  adds a second selector, for the card of \<open>amazon\<close>; an identifier with a line feed at
  its end; and updates that carry them.
\<close>

definition spliced_app :: string where
  "spliced_app = ''ebay'' @ [CHR 0x22] @ ''], .price-card[data-app='' @ [CHR 0x22] @ ''amazon''"

definition line_feed_app :: string where
  "line_feed_app = ''amazon'' @ [CHR 0x0A]"

definition spliced_update :: update where
  "spliced_update = no_update\<lparr>app_complete := Some spliced_app, result := Some found_45\<rparr>"




definition amazon_started :: update where
  "amazon_started = no_update\<lparr>current_app := Some ''amazon''\<rparr>"




text \<open>
  The update reporting the product found on \<open>amazon\<close> at 45; the page after that update
  and a click on the buy button of that card (\<open>confirming\<close>); and the page once the order
  has been confirmed and its channel is open (\<open>ordering\<close>).
\<close>

definition amazon_found :: update where
  "amazon_found = no_update\<lparr>app_complete := Some ''amazon'', result := Some found_45\<rparr>"

definition confirming :: state where
  "confirming = run [Message 0 amazon_found, Click_buy 0] searching"

definition ordering :: state where
  "ordering = run [Click_confirmOrder, Settled 1 (Json (Some ''t2''))] confirming"

text \<open>Order events: a failure with a reason, a failure whose reason is the empty
  string, and a failure without a reason.\<close>

definition order_failed :: update where
  "order_failed = no_update\<lparr>status := Some ''error'', update_error := Some ''Out of stock''\<rparr>"

definition order_failed_empty :: update where
  "order_failed_empty = no_update\<lparr>status := Some ''error'', update_error := Some []\<rparr>"

definition order_failed_silent :: update where
  "order_failed_silent = no_update\<lparr>status := Some ''error''\<rparr>"

text \<open>The page with \<open>milk\<close> typed into the product field, spaces around it.\<close>

definition typed :: state where
  "typed = step (Input ''  milk '') page"

text \<open>
  Two runs of events: a search for \<open>milk\<close> started with the button, then one for \<open>eggs\<close>
  started with the Enter key before anything has come back; and the progress of one
  probe followed by a click on a buy button.
\<close>

definition two_searches :: "event list" where
  "two_searches = [Input ''milk'', Click_searchBtn, Input ''eggs'', Keypress ''Enter'']"

definition probing :: "event list" where
  "probing = [Message 0 amazon_started, Message 0 amazon_found, Click_buy 0]"

text \<open>
  The search of \<open>typed\<close> while its request is pending (\<open>waiting\<close>) and once the response
  has come (\<open>subscribed\<close>); the order of \<open>confirming\<close> while its request is pending
  (\<open>order_waiting\<close>) and once the response has come (\<open>order_subscribed\<close>).
\<close>

definition waiting :: state where
  "waiting = run [Click_cancelOrder] (startSearch typed)"

definition subscribed :: state where
  "subscribed = step (Settled 0 (Json (Some ''t1''))) waiting"

definition order_waiting :: state where
  "order_waiting = run [Message 0 amazon_started] (placeOrder confirming)"

definition order_subscribed :: state where
  "order_subscribed = step (Settled 1 (Json (Some ''t2''))) order_waiting"

section \<open>Properties\<close>

subsection \<open>Looking a card up\<close>

lemma first_card_None:
  "first_card P cs = None \<longleftrightarrow> (\<forall>c \<in> set cs. \<not> P c)"
  by (induction cs) auto


lemma plain_not_line_broken: "plain a \<Longrightarrow> \<not> line_broken a"
  by (auto simp: plain_def line_broken_def)

lemma line_broken_truthy: "line_broken a \<Longrightarrow> truthy a"
  unfolding truthy_def by (cases a) (simp_all add: line_broken_def)


lemma querySelector_card_plain:
  "plain a \<Longrightarrow>
     querySelector_card cs a =
       Some (element_or_null (first_card (\<lambda>c. data_app c = Some a) cs))"
  by (simp add: querySelector_card_def)

lemma querySelector_card_plain_Null:
  "plain a \<Longrightarrow>
     querySelector_card cs a = Some Null \<longleftrightarrow> (\<forall>c \<in> set cs. data_app c \<noteq> Some a)"
  by (auto simp: querySelector_card_def element_or_null_def first_card_None [symmetric]
      split: option.splits)


lemma querySelector_card_line_broken:
  "line_broken a \<Longrightarrow> querySelector_card cs a = Some Threw"
  using plain_not_line_broken [of a] by (auto simp: querySelector_card_def)


subsection \<open>The example page during a search\<close>

lemma page_constructed: "constructor page = page"
  by (simp add: constructor_def page_def)

lemma searching_eval:
  "searching =
     \<lparr>currentTaskId = Some ''t1'', currentProduct = Some ''milk'', ws = Some 0, results = [],
      selectedOrderApp = None, productInput_value = ''milk'', productInput_focused = False,
      searchBtn_disabled = True, btnText_hidden = True, btnLoader_hidden = False,
      statusSection_hidden = False, statusTitle = ''Connecting to your phone...'',
      statusMessage = ''Starting search...'', resultsSection_hidden = False,
      bestDeal_hidden = True, bestApp = [], bestPrice = [], bestAppBtn = [],
      orderModal_hidden = True, orderApp = [], orderProduct = [],
      orderStatusModal_hidden = True, orderStatusTitle = [], orderStatusMsg = [],
      priceCards = [shop_card ''amazon'', shop_card ''flipkart'', shop_card ''blinkit'',
                    shop_card ''zepto''],
      location_host = ''localhost:8000'',
      requests = [\<lparr>path = ''/search'', http_method = ''POST'',
                   headers = [(''Content-Type'', ''application/json'')],
                   body = [(''product'', JString ''milk'')],
                   awaited_by = StartSearch, settled = True\<rparr>],
      sockets = [\<lparr>url = ''ws://localhost:8000/ws/t1'', onmessage = SearchChannel,
                  is_open = True\<rparr>],
      timeouts = [], toUpperCase = upper_ascii, blocks_ws = False, beyond_model = False\<rparr>"
  by (simp add: searching_def page_def startSearch_def truthy_def trim_def trimStart_def
      trimEnd_def white_space_def setSearchLoading_def showStatus_def resetCards_def
      resetCard_def shop_card_def fetch_def startSearch_resume_def connectWebSocket_def
      new_WebSocket_def WebSocket_throws_def ws_url_def template_undefined_def Let_def)

lemma plain_examples [simp]:
  "plain ''amazon''" "plain ''flipkart''" "plain ''ebay''"
  by (simp_all add: plain_def)

lemma searching_card [simp]:
  "querySelector_card (priceCards searching) ''amazon'' = Some (Element 0)"
  "querySelector_card (priceCards searching) ''flipkart'' = Some (Element 1)"
  "querySelector_card (priceCards searching) ''ebay'' = Some Null"
  by (simp_all add: querySelector_card_def element_or_null_def searching_eval shop_card_def)

lemma upper_ascii_examples [simp]:
  "upper_ascii ''a'' = ''A''" "upper_ascii ''f'' = ''F''"
  "upper_ascii ''amazon'' = ''AMAZON''" "upper_ascii ''ebay'' = ''EBAY''"
  by code_simp+

lemma capitalize_examples [simp]:
  "capitalize upper_ascii ''amazon'' = ''Amazon''"
  "capitalize upper_ascii ''flipkart'' = ''Flipkart''"
  "capitalize upper_ascii ''ebay'' = ''Ebay''"
  by code_simp+

lemma special_examples [simp]:
  "spliced spliced_app = Some (''ebay'', ''amazon'')" "\<not> plain spliced_app"
  "\<not> line_broken spliced_app" "line_broken line_feed_app" "\<not> plain line_feed_app"
  by (simp_all add: spliced_def spliced_app_def splice_mark_def line_feed_app_def plain_def
      line_broken_def Let_def)

subsection \<open>Probe results on the cards\<close>

lemma updateCard_Null:
  "querySelector_card (priceCards s) a = Some Null \<Longrightarrow> updateCard a r s = Returned s"
  by (simp add: updateCard_def)

lemma updateCard_Threw:
  "querySelector_card (priceCards s) a = Some Threw \<Longrightarrow> updateCard a r s = Thrown s"
  by (simp add: updateCard_def)


text \<open>What the update with the spliced identifier does to the example page.\<close>

lemma spliced_lookup:
  "querySelector_card (priceCards searching) spliced_app = Some (Element 0)"
  by (simp add: querySelector_card_def element_or_null_def searching_eval shop_card_def)

lemma spliced_updateCard:
  "updateCard spliced_app found_45 searching =
     Returned (searching\<lparr>priceCards := (priceCards searching)
                  [0 := card_found (Number ''45'') (Some ''milk'')
                          ((priceCards searching ! 0)\<lparr>loading_hidden := True\<rparr>)],
               results := [(spliced_app, Probe found_45)]\<rparr>)"
  by (simp add: updateCard_def spliced_lookup Let_def)
    (simp add: found_45_def number_truthy_def searching_eval)

lemma spliced_handled:
  "step (Message 0 spliced_update) searching =
     searching\<lparr>priceCards := (priceCards searching)
                  [0 := card_found (Number ''45'') (Some ''milk'')
                          ((priceCards searching ! 0)\<lparr>loading_hidden := True\<rparr>)],
               results := [(spliced_app, Probe found_45)]\<rparr>"
proof -
  have t: "truthy spliced_app"
    by (simp add: truthy_def spliced_app_def)
  have h: "handleUpdate spliced_update searching = updateCard spliced_app found_45 searching"
    using t
    by (simp add: handleUpdate_def handle_current_app_def handle_app_complete_def
        handle_status_def and_then_def spliced_update_def no_update_def spliced_updateCard)
  have o: "is_open (sockets searching ! 0) \<and>
           onmessage (sockets searching ! 0) = SearchChannel \<and> 0 < length (sockets searching)"
    by (simp add: searching_eval)
  from o h show ?thesis
    by (simp add: leaves_def spliced_updateCard)
qed

text \<open>
  Claim C10, as stated, fails for an identifier that no card carries but that ends the
  quoted string of the selector and adds a selector of its own: the lookup of
  \<^verbatim>\<open>updateCard\<close> then finds the card of another storefront, rewrites it and records the
  result.
\<close>

theorem unknown_storefront_rewrites_card:
  "app_complete spliced_update = Some spliced_app \<and>
   result spliced_update = Some found_45 \<and>
   \<not> (\<exists>c \<in> set (priceCards searching). data_app c = Some spliced_app) \<and>
   data_app (priceCards searching ! 0) = Some ''amazon'' \<and>
   badge_text (priceCards searching ! 0) = ''Pending'' \<and>
   results searching = [] \<and>
   is_open (sockets searching ! 0) \<and> onmessage (sockets searching ! 0) = SearchChannel \<and>
   returns (updateCard spliced_app found_45 searching) \<and>
   badge_text (priceCards (step (Message 0 spliced_update) searching) ! 0) = ''Found'' \<and>
   priceValue (priceCards (step (Message 0 spliced_update) searching) ! 0) = ''45'' \<and>
   results (step (Message 0 spliced_update) searching) = [(spliced_app, Probe found_45)]"
proof -
  have "app_complete spliced_update = Some spliced_app \<and>
        result spliced_update = Some found_45"
    by (simp add: spliced_update_def no_update_def)
  moreover have "\<not> (\<exists>c \<in> set (priceCards searching). data_app c = Some spliced_app)"
    by (simp add: searching_eval shop_card_def spliced_app_def)
  moreover have "data_app (priceCards searching ! 0) = Some ''amazon'' \<and>
                 badge_text (priceCards searching ! 0) = ''Pending'' \<and>
                 results searching = [] \<and> is_open (sockets searching ! 0) \<and>
                 onmessage (sockets searching ! 0) = SearchChannel"
    by (simp add: searching_eval shop_card_def)
  moreover have "returns (updateCard spliced_app found_45 searching)"
    by (simp add: spliced_updateCard)
  moreover have
    "badge_text (priceCards (step (Message 0 spliced_update) searching) ! 0) = ''Found'' \<and>
     priceValue (priceCards (step (Message 0 spliced_update) searching) ! 0) = ''45'' \<and>
     results (step (Message 0 spliced_update) searching) = [(spliced_app, Probe found_45)]"
    unfolding spliced_handled by (simp add: card_found_def searching_eval)
  ultimately show ?thesis
    by (intro conjI) simp_all
qed

text \<open>
  Claim C10, amended. For an \<^verbatim>\<open>app_complete\<close> update whose identifier has no double
  quote, backslash, line break or NUL and is carried by no card of the document, the
  lookup of \<^verbatim>\<open>updateCard\<close> finds nothing and the method returns before making any
  change: every card and \<^verbatim>\<open>this.results\<close> are as before, and the result is not recorded.
  For an identifier with a line break (and no double quote or backslash) the lookup
  throws, again before any change.
\<close>

theorem updateCard_without_card:
  assumes "app_complete d = Some a" and "result d = Some r"
  shows "(plain a \<and> (\<forall>c \<in> set (priceCards s). data_app c \<noteq> Some a) \<longrightarrow>
            updateCard a r s = Returned s \<and> handle_app_complete d s = Returned s) \<and>
         (line_broken a \<longrightarrow>
            updateCard a r s = Thrown s \<and> handle_app_complete d s = Thrown s) \<and>
         ((plain a \<and> (\<forall>c \<in> set (priceCards s). data_app c \<noteq> Some a)) \<or> line_broken a \<longrightarrow>
            priceCards (leaves (handle_app_complete d s) s) = priceCards s \<and>
            results (leaves (handle_app_complete d s) s) = results s \<and>
            leaves (handle_app_complete d s) s = s)"
proof -
  have 1: "updateCard a r s = Returned s \<and> handle_app_complete d s = Returned s"
    if "plain a" "\<forall>c \<in> set (priceCards s). data_app c \<noteq> Some a"
    using that assms
    by (simp add: handle_app_complete_def updateCard_Null querySelector_card_plain_Null)
  have t: "truthy a" if "line_broken a"
    using that by (rule line_broken_truthy)
  have 2: "updateCard a r s = Thrown s \<and> handle_app_complete d s = Thrown s"
    if "line_broken a"
    using that assms t
    by (simp add: handle_app_complete_def updateCard_Threw querySelector_card_line_broken)
  have 3: "priceCards (leaves (handle_app_complete d s) s) = priceCards s \<and>
           results (leaves (handle_app_complete d s) s) = results s \<and>
           leaves (handle_app_complete d s) s = s"
    if "(plain a \<and> (\<forall>c \<in> set (priceCards s). data_app c \<noteq> Some a)) \<or> line_broken a"
    using that 1 2 by (auto simp: leaves_def)
  from 1 2 3 show ?thesis
    by (intro conjI impI) blast+
qed

theorem updateCard_without_card_witness:
  "plain ''ebay'' \<and> \<not> (\<exists>c \<in> set (priceCards searching). data_app c = Some ''ebay'') \<and>
   line_broken line_feed_app \<and>
   updateCard ''ebay'' found_45 searching = Returned searching \<and>
   handle_app_complete (no_update\<lparr>app_complete := Some ''ebay'', result := Some found_45\<rparr>)
     searching = Returned searching \<and>
   updateCard line_feed_app found_45 searching = Thrown searching \<and>
   leaves (handle_app_complete
             (no_update\<lparr>app_complete := Some line_feed_app, result := Some found_45\<rparr>)
             searching) searching = searching"
proof -
  have h: "\<forall>c \<in> set (priceCards searching). data_app c \<noteq> Some ''ebay''"
    by (simp add: searching_eval shop_card_def)
  have a: "app_complete (no_update\<lparr>app_complete := Some ''ebay'', result := Some found_45\<rparr>)
             = Some ''ebay''"
    and r: "result (no_update\<lparr>app_complete := Some ''ebay'', result := Some found_45\<rparr>)
             = Some found_45"
    and a2: "app_complete
               (no_update\<lparr>app_complete := Some line_feed_app, result := Some found_45\<rparr>)
             = Some line_feed_app"
    and r2: "result (no_update\<lparr>app_complete := Some line_feed_app, result := Some found_45\<rparr>)
             = Some found_45"
    by simp_all
  have p: "plain ''ebay''" and l: "line_broken line_feed_app"
    by simp_all
  note w1 = updateCard_without_card [OF a r, of searching, THEN conjunct1, rule_format]
  note w2 = updateCard_without_card [OF a2 r2, of searching, THEN conjunct2]
  from w1 p h
  have 1: "updateCard ''ebay'' found_45 searching = Returned searching"
    and 2: "handle_app_complete
              (no_update\<lparr>app_complete := Some ''ebay'', result := Some found_45\<rparr>) searching
            = Returned searching"
    by simp_all
  from w2 [THEN conjunct1] l
  have 3: "updateCard line_feed_app found_45 searching = Thrown searching"
    by simp
  from w2 [THEN conjunct2] l
  have 4: "leaves (handle_app_complete
              (no_update\<lparr>app_complete := Some line_feed_app, result := Some found_45\<rparr>)
              searching) searching = searching"
    by simp
  from h have h': "\<not> (\<exists>c \<in> set (priceCards searching). data_app c = Some ''ebay'')"
    by simp
  from p h' l 1 2 3 4 show ?thesis
    by (intro conjI)
qed







subsection \<open>The start of a probe\<close>





lemma showStatus_priceCards [simp]: "priceCards (showStatus t m s) = priceCards s"
  by (simp add: showStatus_def)




subsection \<open>The terminal search event\<close>












subsection \<open>The example states\<close>

text \<open>The values of the example states that the examples below need.\<close>

lemma blank_trim: "trim ''   '' = []"
  by code_simp

lemma typed_eval:
  "productInput_value typed = ''  milk ''"
  "requests typed = []" "sockets typed = []" "location_host typed = ''localhost:8000''"
  "blocks_ws typed = False" "beyond_model typed = False"
  by (simp_all add: typed_def page_def)

lemma milk_trim: "trim ''  milk '' = ''milk''"
  by code_simp

lemma confirming_eval:
  "selectedOrderApp confirming = Some ''amazon''"
  "currentProduct confirming = Some ''milk''"
  "requests confirming = requests searching"
  "sockets confirming = sockets searching"
  "location_host confirming = ''localhost:8000''"
  "timeouts confirming = []"
  "blocks_ws confirming = False" "beyond_model confirming = False"
  by (simp_all add: confirming_def amazon_found_def found_45_def no_update_def searching_eval
      handleUpdate_def handle_status_def handle_app_complete_def handle_current_app_def
      and_then_def leaves_def querySelector_card_def element_or_null_def plain_def
      number_truthy_def
      truthy_def updateCard_def card_found_def textContent_null_def showOrderModal_def
      shop_card_def Let_def)

lemma ordering_eval:
  "sockets ordering =
     [\<lparr>url = ''ws://localhost:8000/ws/t1'', onmessage = SearchChannel, is_open = True\<rparr>,
      \<lparr>url = ''ws://localhost:8000/ws/t2'', onmessage = OrderChannel, is_open = True\<rparr>]"
  "timeouts ordering = []"
  "orderStatusModal_hidden ordering = False"
  by (simp_all add: ordering_def confirming_eval placeOrder_def hideOrderModal_def fetch_def
      searching_eval placeOrder_resume_def new_WebSocket_def WebSocket_throws_def ws_url_def
      template_undefined_def Let_def)

subsection \<open>A failed order\<close>

text \<open>
  Claim C4, as stated, fails for an order event with status \<^verbatim>\<open>error\<close> whose \<^verbatim>\<open>error\<close>
  field is there but empty: the client does not display \<^verbatim>\<open>update.error\<close>, it displays
  the fallback text.
\<close>

theorem empty_order_error_replaced:
  "status order_failed_empty = Some ''error'' \<and>
   update_error order_failed_empty = Some [] \<and>
   is_open (sockets ordering ! 1) \<and> onmessage (sockets ordering ! 1) = OrderChannel \<and>
   orderStatusMsg (step (Message 1 order_failed_empty) ordering) = ''Failed to place order'' \<and>
   Some (orderStatusMsg (step (Message 1 order_failed_empty) ordering))
     \<noteq> update_error order_failed_empty"
  by (simp add: order_failed_empty_def no_update_def ordering_eval orderWs_onmessage_def
      close_socket_def setTimeout_hide_def or_else_def truthy_def)

text \<open>
  Claim C4, amended. For an order event with status \<^verbatim>\<open>error\<close> the client sets the title
  to Order Failed and displays \<^verbatim>\<open>update.error\<close> when it is a non-empty string, and the
  fallback Failed to place order when the field is absent or empty; the text displayed
  is never empty. It schedules the hiding of the order-status modal after 3000 ms (the
  modal is hidden when that timeout fires) and closes the order socket, which then
  receives nothing more.
\<close>

theorem order_error_reported:
  assumes "status u = Some ''error''" and "i < length (sockets s)"
  shows "let s' = orderWs_onmessage i u s in
           orderStatusTitle s' = cross_icon @ '' Order Failed'' \<and>
           (\<forall>e. update_error u = Some e \<and> e \<noteq> [] \<longrightarrow> orderStatusMsg s' = e) \<and>
           (update_error u = None \<or> update_error u = Some [] \<longrightarrow>
              orderStatusMsg s' = ''Failed to place order'') \<and>
           orderStatusMsg s' \<noteq> [] \<and>
           timeouts s' = timeouts s @ [HideOrderStatusModal 3000] \<and>
           orderStatusModal_hidden (step (Fired (length (timeouts s))) s') \<and>
           \<not> is_open (sockets s' ! i) \<and>
           (\<forall>v. step (Message i v) s' = s') \<and>
           (is_open (sockets s ! i) \<and> onmessage (sockets s ! i) = OrderChannel \<longrightarrow>
              step (Message i u) s = s')"
proof -
  have msg: "or_else (update_error u) ''Failed to place order'' \<noteq> []"
    by (simp add: or_else_def truthy_def split: option.split)
  from assms msg show ?thesis
    by (auto simp: orderWs_onmessage_def close_socket_def setTimeout_hide_def or_else_def
        truthy_def Let_def)
qed

theorem order_error_reported_witness:
  "status order_failed = Some ''error'' \<and> status order_failed_silent = Some ''error'' \<and>
   (1::nat) < length (sockets ordering) \<and>
   update_error order_failed = Some ''Out of stock'' \<and>
   update_error order_failed_silent = None \<and>
   is_open (sockets ordering ! 1) \<and> onmessage (sockets ordering ! 1) = OrderChannel \<and>
   orderStatusMsg (step (Message 1 order_failed) ordering) = ''Out of stock'' \<and>
   orderStatusMsg (step (Message 1 order_failed_silent) ordering) = ''Failed to place order'' \<and>
   timeouts (step (Message 1 order_failed) ordering) = [HideOrderStatusModal 3000] \<and>
   \<not> orderStatusModal_hidden (step (Message 1 order_failed) ordering) \<and>
   orderStatusModal_hidden (step (Fired 0) (step (Message 1 order_failed) ordering)) \<and>
   \<not> is_open (sockets (step (Message 1 order_failed) ordering) ! 1)"
proof -
  have st: "status order_failed = Some ''error''"
    and er: "update_error order_failed = Some ''Out of stock''"
    and st2: "status order_failed_silent = Some ''error''"
    and er2: "update_error order_failed_silent = None"
    by (simp_all add: order_failed_def order_failed_silent_def no_update_def)
  have i: "(1::nat) < length (sockets ordering)"
    and o: "is_open (sockets ordering ! 1) \<and> onmessage (sockets ordering ! 1) = OrderChannel"
    and t: "timeouts ordering = []" and h: "\<not> orderStatusModal_hidden ordering"
    by (simp_all add: ordering_eval)
  have shown: "orderStatusModal_hidden (orderWs_onmessage 1 order_failed ordering)
                 = orderStatusModal_hidden ordering"
    by (simp add: orderWs_onmessage_def close_socket_def setTimeout_hide_def)
  from order_error_reported [OF st i] o er t
  have a: "step (Message 1 order_failed) ordering = orderWs_onmessage 1 order_failed ordering"
    and "orderStatusMsg (orderWs_onmessage 1 order_failed ordering) = ''Out of stock''"
    and "timeouts (orderWs_onmessage 1 order_failed ordering) = [HideOrderStatusModal 3000]"
    and "orderStatusModal_hidden (step (Fired 0) (orderWs_onmessage 1 order_failed ordering))"
    and "\<not> is_open (sockets (orderWs_onmessage 1 order_failed ordering) ! 1)"
    by (simp_all add: Let_def)
  moreover from order_error_reported [OF st2 i] o er2
  have "step (Message 1 order_failed_silent) ordering
          = orderWs_onmessage 1 order_failed_silent ordering"
    and "orderStatusMsg (orderWs_onmessage 1 order_failed_silent ordering)
          = ''Failed to place order''"
    by (simp_all add: Let_def)
  ultimately show ?thesis
    using st st2 er er2 i o h shown by simp
qed

subsection \<open>The winning offer\<close>

lemma find_distinct_key:
  "distinct (map f xs) \<Longrightarrow> x \<in> set xs \<Longrightarrow> find (\<lambda>y. f y = f x) xs = Some x"
  by (induction xs) (auto simp: image_iff)

lemma find_key_Some:
  "find (\<lambda>y. f y = k) xs = Some x \<Longrightarrow> x \<in> set xs \<and> f x = k"
  by (induction xs) (auto split: if_splits)

lemma offer_of_app: "offer_of rs c = Some o1 \<Longrightarrow> app o1 = c"
  by (auto simp: offer_of_def split: option.splits probe_outcome.splits)

lemma offer_of_found:
  "offer_of rs c = Some o1 \<Longrightarrow>
     \<exists>r \<in> set rs. \<exists>l. storefront r = c \<and> outcome r = Found (best_price o1) l"
  by (auto simp: offer_of_def split: option.splits probe_outcome.splits dest: find_key_Some)

lemma offer_of_result:
  assumes "distinct (map storefront rs)" and "r \<in> set rs" and "outcome r = Found p l"
  shows "offer_of rs (storefront r) = Some \<lparr>app = storefront r, best_price = p\<rparr>"
  using find_distinct_key [OF assms(1,2)] assms(3) by (simp add: offer_of_def)

lemma offer_of_permuted:
  assumes "distinct (map storefront rs)" and "mset rs' = mset rs"
  shows "offer_of rs' c = offer_of rs c"
proof -
  from assms(2) have "mset (map storefront rs') = mset (map storefront rs)"
    by simp
  with assms(1) have d: "distinct (map storefront rs')"
    by (metis mset_eq_imp_distinct_iff)
  from assms(2) have s: "set rs' = set rs"
    by (metis mset_eq_setD)
  have "find (\<lambda>r. storefront r = c) rs' = find (\<lambda>r. storefront r = c) rs"
  proof (cases "find (\<lambda>r. storefront r = c) rs")
    case None
    then have "\<forall>r \<in> set rs. storefront r \<noteq> c"
      by (simp add: find_None_iff)
    with s have "find (\<lambda>r. storefront r = c) rs' = None"
      by (simp add: find_None_iff)
    with None show ?thesis by simp
  next
    case (Some r)
    then have r: "r \<in> set rs" "storefront r = c"
      by (auto dest: find_key_Some)
    with s have "r \<in> set rs'" by simp
    from find_distinct_key [OF d this] r(2) Some show ?thesis by simp
  qed
  then show ?thesis
    by (simp add: offer_of_def)
qed

lemma select_offer_cong:
  "(\<And>c. offer_of rs' c = offer_of rs c) \<Longrightarrow> select_offer cfg rs' = select_offer cfg rs"
  by (induction cfg) (simp_all split: option.split)

lemma select_offer_member:
  "select_offer cfg rs = Some o1 \<Longrightarrow> app o1 \<in> set cfg \<and> offer_of rs (app o1) = Some o1"
  by (induction cfg arbitrary: o1)
    (auto split: option.splits if_splits dest: offer_of_app)

lemma select_offer_exists:
  "c \<in> set cfg \<Longrightarrow> offer_of rs c = Some o1 \<Longrightarrow> \<exists>o2. select_offer cfg rs = Some o2"
  by (induction cfg) (auto split: option.splits)

lemma select_offer_least:
  "select_offer cfg rs = Some o1 \<Longrightarrow> c \<in> set cfg \<Longrightarrow> offer_of rs c = Some o2 \<Longrightarrow>
     best_price o1 \<le> best_price o2"
proof (induction cfg arbitrary: o1)
  case Nil
  then show ?case by simp
next
  case (Cons x cfg)
  then show ?case
    by (fastforce split: option.splits if_splits dest: select_offer_exists)
qed

lemma select_offer_first:
  "select_offer cfg rs = Some o1 \<Longrightarrow> c \<in> set cfg \<Longrightarrow> offer_of rs c = Some o2 \<Longrightarrow>
     best_price o2 = best_price o1 \<Longrightarrow> precedence cfg (app o1) \<le> precedence cfg c"
proof (induction cfg arbitrary: o1)
  case Nil
  then show ?case by simp
next
  case (Cons x cfg)
  show ?case
  proof (cases "app o1 = x")
    case True
    then show ?thesis by simp
  next
    case False
    show ?thesis
    proof (cases "offer_of rs x")
      case None
      with Cons.prems False have sel: "select_offer cfg rs = Some o1" and "c \<noteq> x"
        by auto
      with Cons.prems Cons.IH [OF sel] False show ?thesis
        by auto
    next
      case (Some ox)
      then have ax: "app ox = x" by (rule offer_of_app)
      with Cons.prems(1) Some False
      have sel: "select_offer cfg rs = Some o1" and lt: "\<not> best_price ox \<le> best_price o1"
        by (auto split: option.splits if_splits)
      from lt Some Cons.prems(3,4) have "c \<noteq> x" by auto
      with Cons.prems Cons.IH [OF sel] False show ?thesis
        by auto
    qed
  qed
qed

lemma finite_found_prices: "finite (found_prices rs)"
proof -
  have "found_prices rs \<subseteq> (\<lambda>r. case outcome r of Found p l \<Rightarrow> p | Not_found e \<Rightarrow> 0) ` set rs"
    by (force simp: found_prices_def)
  then show ?thesis
    by (rule finite_subset) simp
qed

text \<open>
  Claim C2. Let every configured storefront be probed once and at least one probe report
  a found price. Then an offer is selected; its price is the minimum of the found
  prices; its storefront reported that price, and no storefront that reported it has a
  lower precedence index; and the same offer is selected for every other order in which
  the probes may have settled.
\<close>

theorem select_offer_minimum:
  assumes "distinct (map storefront rs)"
    and "storefront ` set rs \<subseteq> set cfg"
    and "found_prices rs \<noteq> {}"
  shows "\<exists>o1. select_offer cfg rs = Some o1 \<and>
           best_price o1 = Min (found_prices rs) \<and>
           (\<exists>r \<in> set rs. \<exists>l. storefront r = app o1 \<and> outcome r = Found (best_price o1) l) \<and>
           (\<forall>r \<in> set rs. \<forall>l. outcome r = Found (best_price o1) l \<longrightarrow>
                precedence cfg (app o1) \<le> precedence cfg (storefront r)) \<and>
           (\<forall>rs'. mset rs' = mset rs \<longrightarrow> select_offer cfg rs' = Some o1)"
proof -
  from assms(3) obtain r0 p0 l0 where r0: "r0 \<in> set rs" "outcome r0 = Found p0 l0"
    by (auto simp: found_prices_def)
  with assms(1) have "offer_of rs (storefront r0) = Some \<lparr>app = storefront r0, best_price = p0\<rparr>"
    by (simp add: offer_of_result)
  moreover from r0 assms(2) have "storefront r0 \<in> set cfg"
    by auto
  ultimately obtain o1 where sel: "select_offer cfg rs = Some o1"
    by (blast dest: select_offer_exists)
  from select_offer_member [OF sel] have mem: "offer_of rs (app o1) = Some o1"
    by simp
  from offer_of_found [OF mem]
  have src: "\<exists>r \<in> set rs. \<exists>l. storefront r = app o1 \<and> outcome r = Found (best_price o1) l" .
  then have inp: "best_price o1 \<in> found_prices rs"
    by (auto simp: found_prices_def)
  have le: "best_price o1 \<le> p" if "p \<in> found_prices rs" for p
  proof -
    from that obtain r l where r: "r \<in> set rs" "outcome r = Found p l"
      by (auto simp: found_prices_def)
    with assms(1) have "offer_of rs (storefront r) = Some \<lparr>app = storefront r, best_price = p\<rparr>"
      by (simp add: offer_of_result)
    moreover from r assms(2) have "storefront r \<in> set cfg"
      by auto
    ultimately show ?thesis
      using select_offer_least [OF sel] by fastforce
  qed
  have "Min (found_prices rs) = best_price o1"
    using finite_found_prices le inp by (rule Min_eqI)
  then have minimum: "best_price o1 = Min (found_prices rs)"
    by simp
  have first: "precedence cfg (app o1) \<le> precedence cfg (storefront r)"
    if "r \<in> set rs" "outcome r = Found (best_price o1) l" for r l
  proof -
    from that assms(1)
    have "offer_of rs (storefront r) = Some \<lparr>app = storefront r, best_price = best_price o1\<rparr>"
      by (simp add: offer_of_result)
    moreover from that assms(2) have "storefront r \<in> set cfg"
      by auto
    ultimately show ?thesis
      using select_offer_first [OF sel] by fastforce
  qed
  have order: "select_offer cfg rs' = Some o1" if "mset rs' = mset rs" for rs'
    using select_offer_cong [of rs' rs cfg] offer_of_permuted [OF assms(1) that] sel
    by simp
  from sel minimum src first order show ?thesis
    by blast
qed

theorem select_offer_minimum_witness:
  "distinct (map storefront example_results) \<and>
   storefront ` set example_results \<subseteq> set [''A'', ''B'', ''C'', ''D''] \<and>
   found_prices example_results \<noteq> {} \<and>
   select_offer [''A'', ''B'', ''C'', ''D''] example_results
     = Some \<lparr>app = ''B'', best_price = 79999\<rparr> \<and>
   Min (found_prices example_results) = 79999 \<and>
   precedence [''A'', ''B'', ''C'', ''D''] ''B'' \<le> precedence [''A'', ''B'', ''C'', ''D''] ''C'' \<and>
   select_offer [''A'', ''B'', ''C'', ''D''] (rev example_results)
     = Some \<lparr>app = ''B'', best_price = 79999\<rparr>"
proof -
  have d: "distinct (map storefront example_results)"
    by (simp add: example_results_def)
  have c: "storefront ` set example_results \<subseteq> set [''A'', ''B'', ''C'', ''D'']"
    by (simp add: example_results_def)
  have f: "found_prices example_results \<noteq> {}"
    by (auto simp: found_prices_def example_results_def)
  have e: "select_offer [''A'', ''B'', ''C'', ''D''] example_results
             = Some \<lparr>app = ''B'', best_price = 79999\<rparr>"
    by (simp add: example_results_def offer_of_def)
  from select_offer_minimum [OF d c f, of] e
  have m: "Min (found_prices example_results) = 79999"
    and p: "\<forall>rs'. mset rs' = mset example_results \<longrightarrow>
              select_offer [''A'', ''B'', ''C'', ''D''] rs' = Some \<lparr>app = ''B'', best_price = 79999\<rparr>"
    and t: "\<forall>r \<in> set example_results. \<forall>l. outcome r = Found 79999 l \<longrightarrow>
              precedence [''A'', ''B'', ''C'', ''D''] ''B''
                \<le> precedence [''A'', ''B'', ''C'', ''D''] (storefront r)"
    by auto
  have "\<lparr>storefront = ''C'', outcome = Found 79999 ''iPhone 15''\<rparr> \<in> set example_results"
    by (simp add: example_results_def)
  with t have i: "precedence [''A'', ''B'', ''C'', ''D''] ''B''
                    \<le> precedence [''A'', ''B'', ''C'', ''D''] ''C''"
    by fastforce
  have "mset (rev example_results) = mset example_results"
    by simp
  with p have r: "select_offer [''A'', ''B'', ''C'', ''D''] (rev example_results)
     = Some \<lparr>app = ''B'', best_price = 79999\<rparr>"
    by blast
  from d c f e m i r show ?thesis
    by (intro conjI)
qed

end
